theory Spec2Isabelle
  imports Complex_Main "HOL-Library.Multiset"
begin

section \<open>Data preparation of the spiking-MNIST notebook\<close>

text \<open>
  The notebook \<^verbatim>\<open>docs/examples/spiking-mnist.ipynb\<close> turns the integer labels of the
  MNIST data into one-hot rows:
  \<^verbatim>\<open>
  for data in (train_data, test_data):
      one_hot = np.zeros((data[0].shape[0], 10))
      one_hot[np.arange(data[0].shape[0]), data[1]] = 1
      data[1] = one_hot
  \<close>
  A two-dimensional array is a list of rows. The entries of \<open>one_hot\<close> are the floats
  \<open>0.0\<close> and \<open>1.0\<close>, modelled as reals. The indexed assignment of NumPy pairs the row
  indices \<open>np.arange(n)\<close> with the label array after broadcasting the two index arrays
  against each other, lets a negative column index count from the end of the axis, and
  raises \<open>IndexError\<close> for index arrays that do not broadcast and for a column outside
  \<open>-10..9\<close>. The first argument of \<open>one_hot\<close> is \<open>data[0].shape[0]\<close>, the number of
  images, the second the label array \<open>data[1]\<close>; a data set has one label for each image.
\<close>

datatype py_error =
    IndexError
  | AttributeError
  | NameError string
  | FileNotFoundError
  | PermissionError

definition np_zeros :: "nat \<Rightarrow> nat \<Rightarrow> real list list" where
  "np_zeros n m = replicate n (replicate m 0)"

definition np_arange :: "nat \<Rightarrow> nat list" where
  "np_arange n = [0..<n]"

definition broadcast_pairs :: "nat list \<Rightarrow> int list \<Rightarrow> py_error + (nat \<times> int) list" where
  "broadcast_pairs rows cols =
     (if length rows = length cols then Inr (zip rows cols)
      else if length cols = 1 then Inr (map (\<lambda>r. (r, hd cols)) rows)
      else if length rows = 1 then Inr (map (\<lambda>c. (hd rows, c)) cols)
      else Inl IndexError)"

definition axis_index :: "nat \<Rightarrow> int \<Rightarrow> py_error + nat" where
  "axis_index m j =
     (if 0 \<le> j \<and> j < int m then Inr (nat j)
      else if - int m \<le> j \<and> j < 0 then Inr (nat (int m + j))
      else Inl IndexError)"

fun assign_pairs :: "real list list \<Rightarrow> (nat \<times> int) list \<Rightarrow> real \<Rightarrow> py_error + real list list" where
  "assign_pairs a [] v = Inr a"
| "assign_pairs a ((r, c) # ps) v =
     (if r < length a then
        (case axis_index (length (a ! r)) c of
           Inl e \<Rightarrow> Inl e
         | Inr j \<Rightarrow> assign_pairs (a[r := (a ! r)[j := v]]) ps v)
      else Inl IndexError)"

definition one_hot :: "nat \<Rightarrow> int list \<Rightarrow> py_error + real list list" where
  "one_hot n labels =
     (case broadcast_pairs (np_arange n) labels of
        Inl e \<Rightarrow> Inl e
      | Inr ps \<Rightarrow> assign_pairs (np_zeros n 10) ps 1)"

section \<open>Top-5 selection of the Inception example\<close>

text \<open>
  \<^verbatim>\<open>
  sorted_inds = [i[0] for i in sorted(enumerate(-probabilities),
                                      key=lambda x: x[1])]
  \<close>
  Python's \<open>sorted\<close> is a stable sort by the key, as \<^const>\<open>sort_key\<close> is. The
  probabilities are floats without NaN, modelled as reals, on which negation is exact.
  The loop \<^verbatim>\<open>for i in range(5): index = sorted_inds[i]\<close> reads the first five
  entries and raises \<open>IndexError\<close> on a shorter list.
\<close>

definition sorted_inds :: "real list \<Rightarrow> nat list" where
  "sorted_inds probabilities =
     map fst (sort_key snd (enumerate 0 (map uminus probabilities)))"

definition top5 :: "real list \<Rightarrow> py_error + nat list" where
  "top5 probabilities =
     (if 5 \<le> length (sorted_inds probabilities)
      then Inr (take 5 (sorted_inds probabilities)) else Inl IndexError)"

section \<open>The error handler passed to shutil.rmtree\<close>

text \<open>
  The last cell of \<^verbatim>\<open>docs/examples/tensorflow-models.ipynb\<close> deletes the cloned
  repository:
  \<^verbatim>\<open>
  def onerror(func, path, exc_info):
      if not os.access(path, os.W_OK):
          os.chmod(path, stat.S_IWUSR)
          func(path)
      else:
          raise exc_info[1]
  shutil.rmtree("models", onerror=onerror)
  \<close>
  The operating system is a parameter: a state \<open>'s\<close>, the query \<open>os.access\<close> and the
  call \<open>os.chmod\<close>, which like every call into the operating system either returns or
  raises. The failed operation \<open>func\<close> that \<open>shutil.rmtree\<close> hands over is the other
  parameter. \<open>exc_info\<close> is the triple (type, value, traceback), so \<open>exc_info[1]\<close> is its
  second component. The handler returns the calls it made, in order, and how it ended:
  by returning, by its own \<open>raise\<close> statement, or by an exception that a call let through.
\<close>

definition W_OK :: nat where
  "W_OK = 2"

definition S_IWUSR :: nat where
  "S_IWUSR = 128"

datatype 'p os_call = Access 'p nat | Chmod 'p nat | CallFunc 'p

datatype ('s, 'e) outcome = Returned 's | Reraised 'e | Propagated 'e

record ('s, 'p, 'e) os =
  os_access :: "'s \<Rightarrow> 'p \<Rightarrow> nat \<Rightarrow> bool"
  os_chmod :: "'s \<Rightarrow> 'p \<Rightarrow> nat \<Rightarrow> 'e + 's"

definition onerror ::
  "('s, 'p, 'e) os \<Rightarrow> ('p \<Rightarrow> 's \<Rightarrow> 'e + 's) \<Rightarrow> 'p \<Rightarrow> 't \<times> 'e \<times> 'b \<Rightarrow> 's
     \<Rightarrow> 'p os_call list \<times> ('s, 'e) outcome" where
  "onerror sys func path exc_info s =
     (if \<not> os_access sys s path W_OK then
        (case os_chmod sys s path S_IWUSR of
           Inl e \<Rightarrow> ([Access path W_OK, Chmod path S_IWUSR], Propagated e)
         | Inr s1 \<Rightarrow>
             ([Access path W_OK, Chmod path S_IWUSR, CallFunc path],
              case func path s1 of Inl e \<Rightarrow> Propagated e | Inr s2 \<Rightarrow> Returned s2))
      else ([Access path W_OK], Reraised (fst (snd exc_info))))"

definition retries :: "'p os_call list \<Rightarrow> 'p \<Rightarrow> nat" where
  "retries calls path = count_list calls (CallFunc path)"

text \<open>
  A small file system to run the handler on: a list of paths with their permission
  bits, seen by the owner of the files. \<open>os.access\<close> is false for a path that does not
  exist and otherwise reads the owner's bit for the mode asked; \<open>os.chmod\<close> replaces the
  permission bits of an existing path and raises \<open>FileNotFoundError\<close> for a missing one;
  \<open>unlink\<close> is \<open>os.unlink\<close> as on Windows, where a read-only file cannot be removed;
  \<open>lstat\<close> is \<open>os.lstat\<close>, the first call \<open>shutil.rmtree\<close> makes on the path it is
  given, which changes nothing and raises \<open>FileNotFoundError\<close> for a missing path.
\<close>

type_synonym fs = "(string \<times> nat) list"

definition fs_access :: "fs \<Rightarrow> string \<Rightarrow> nat \<Rightarrow> bool" where
  "fs_access s path mode =
     (case map_of s path of None \<Rightarrow> False
      | Some bits \<Rightarrow> (bits div 64 mod 8) div mode mod 2 = 1)"

definition fs_chmod :: "fs \<Rightarrow> string \<Rightarrow> nat \<Rightarrow> py_error + fs" where
  "fs_chmod s path bits =
     (case map_of s path of None \<Rightarrow> Inl FileNotFoundError
      | Some _ \<Rightarrow> Inr (map (\<lambda>(p, b). if p = path then (p, bits) else (p, b)) s))"

definition unlink :: "string \<Rightarrow> fs \<Rightarrow> py_error + fs" where
  "unlink path s =
     (case map_of s path of None \<Rightarrow> Inl FileNotFoundError
      | Some bits \<Rightarrow>
          if bits div S_IWUSR mod 2 = 1 then Inr (filter (\<lambda>(p, b). p \<noteq> path) s)
          else Inl PermissionError)"

definition lstat :: "string \<Rightarrow> fs \<Rightarrow> py_error + fs" where
  "lstat path s =
     (case map_of s path of None \<Rightarrow> Inl FileNotFoundError | Some _ \<Rightarrow> Inr s)"

definition file_system :: "(fs, string, py_error) os" where
  "file_system = \<lparr>os_access = fs_access, os_chmod = fs_chmod\<rparr>"

section \<open>The callables handed to nengo_dl.TensorNode\<close>

text \<open>
  A TensorNode function does not compute numbers: it is called once, while the graph is
  built, with the symbolic tensors \<open>t\<close> (and \<open>x\<close>) and returns the symbolic tensor that
  is the node's output. A value is therefore an expression: a tensor handed in by the
  simulator, a shape, another Python argument written as in the source, a Python object,
  or the result of calling a function of an external library on values.
\<close>

datatype owner = TensorFlow | TFModels | NengoDL

datatype expr =
    Tensor string
  | Shape "int list"
  | Lit string
  | Obj string
  | Call owner string "expr list"

text \<open>
  \<^verbatim>\<open>
  def sin_func(t):
      out = tf.sin(t)
      out = tf.reshape(out, (1, 1))
      return out
  \<close>
\<close>

definition sin_func :: "expr \<Rightarrow> expr" where
  "sin_func t =
     (let out = Call TensorFlow ''tf.sin'' [t];
          out = Call TensorFlow ''tf.reshape'' [out, Shape [1, 1]]
      in out)"

text \<open>
  \<^verbatim>\<open>
  class KerasNode:
      def __init__(self, keras_model):
          self.model = keras_model
      def pre_build(self, *args):
          self.model = keras.models.clone_model(self.model)
      def __call__(self, t, x):
          images = tf.reshape(x, (-1,) + image_shape)
          return self.model.call(images)
      def post_build(self, sess, rng):
          self.model.load_weights(model_weights)
  \<close>
  \<open>image_shape\<close> and \<open>model_weights\<close> are globals of the notebook, parameters here. The
  Keras model that \<open>load_weights\<close> changes in place is described by the calls made on it.
\<close>

record KerasNode =
  model :: expr

definition KerasNode_init :: "expr \<Rightarrow> KerasNode" where
  "KerasNode_init keras_model = \<lparr>model = keras_model\<rparr>"

definition KerasNode_pre_build :: "KerasNode \<Rightarrow> KerasNode" where
  "KerasNode_pre_build self =
     self\<lparr>model := Call TensorFlow ''keras.models.clone_model'' [model self]\<rparr>"

definition KerasNode_call :: "int list \<Rightarrow> KerasNode \<Rightarrow> expr \<Rightarrow> expr \<Rightarrow> expr" where
  "KerasNode_call image_shape self t x =
     (let images = Call TensorFlow ''tf.reshape'' [x, Shape ([-1] @ image_shape)]
      in Call TensorFlow ''self.model.call'' [model self, images])"

definition KerasNode_post_build :: "string \<Rightarrow> KerasNode \<Rightarrow> KerasNode" where
  "KerasNode_post_build model_weights self =
     self\<lparr>model := Call TensorFlow ''self.model.load_weights'' [model self, Lit model_weights]\<rparr>"

text \<open>
  \<^verbatim>\<open>
  class InceptionNode:
      def pre_build(self, *args):
          self.input_shape = inception.inception_v1.default_image_size
          if not tf.gfile.Exists(checkpoints_dir):
              tf.gfile.MakeDirs(checkpoints_dir)
          dataset_utils.download_and_uncompress_tarball(
              "http://download.tensorflow.org/models/inception_v1_2016_08_28.tar.gz",
              checkpoints_dir)
      def __call__(self, t, x):
          img = tf.reshape(tf.cast(x, tf.uint8), image_shape)
          img = inception_preprocessing.preprocess_image(
              img, self.input_shape, self.input_shape, is_training=False)
          img = tf.expand_dims(img, 0)
          with slim.arg_scope(inception.inception_v1_arg_scope()):
              logits, _ = inception.inception_v1(img, num_classes=1001,
                                                 is_training=False)
          return tf.nn.softmax(logits)
      def post_build(self, sess, rng):
          init_fn = slim.assign_from_checkpoint_fn(
              os.path.join(checkpoints_dir, 'inception_v1.ckpt'),
              slim.get_model_variables('InceptionV1'))
          init_fn(sess)
  \<close>
  The class has no \<open>__init__\<close>: the attribute \<open>input_shape\<close> does not exist before
  \<open>pre_build\<close>, and reading it then raises \<open>AttributeError\<close>. \<open>pre_build\<close> also returns
  the calls it makes on the file system, given whether the checkpoint directory exists.
  The argument scope only sets default arguments of the layers built inside it and is
  passed along as an argument; \<open>logits\<close> is the first component of the pair returned.
\<close>

record InceptionNode =
  input_shape :: "expr option"

definition InceptionNode_init :: InceptionNode where
  "InceptionNode_init = \<lparr>input_shape = None\<rparr>"

definition InceptionNode_pre_build ::
  "string \<Rightarrow> bool \<Rightarrow> InceptionNode \<Rightarrow> InceptionNode \<times> expr list" where
  "InceptionNode_pre_build checkpoints_dir dir_exists self =
     (self\<lparr>input_shape := Some (Lit ''inception.inception_v1.default_image_size'')\<rparr>,
      (if \<not> dir_exists then [Call TensorFlow ''tf.gfile.MakeDirs'' [Lit checkpoints_dir]] else []) @
      [Call TFModels ''dataset_utils.download_and_uncompress_tarball''
         [Lit ''http://download.tensorflow.org/models/inception_v1_2016_08_28.tar.gz'',
          Lit checkpoints_dir]])"

definition InceptionNode_call ::
  "int list \<Rightarrow> InceptionNode \<Rightarrow> expr \<Rightarrow> expr \<Rightarrow> py_error + expr" where
  "InceptionNode_call image_shape self t x =
     (let img = Call TensorFlow ''tf.reshape''
                  [Call TensorFlow ''tf.cast'' [x, Lit ''tf.uint8''], Shape image_shape]
      in case input_shape self of
           None \<Rightarrow> Inl AttributeError
         | Some sz \<Rightarrow>
             (let img = Call TFModels ''inception_preprocessing.preprocess_image''
                          [img, sz, sz, Lit ''is_training=False''];
                  img = Call TensorFlow ''tf.expand_dims'' [img, Lit ''0''];
                  logits = Call TFModels ''inception.inception_v1[0]''
                             [img, Lit ''num_classes=1001'', Lit ''is_training=False'',
                              Call TensorFlow ''slim.arg_scope''
                                [Call TFModels ''inception.inception_v1_arg_scope'' []]]
              in Inr (Call TensorFlow ''tf.nn.softmax'' [logits])))"

definition InceptionNode_post_build :: "string \<Rightarrow> expr \<Rightarrow> expr" where
  "InceptionNode_post_build checkpoints_dir sess =
     (let init_fn = Call TensorFlow ''slim.assign_from_checkpoint_fn''
                      [Lit (checkpoints_dir @ ''/inception_v1.ckpt''),
                       Call TensorFlow ''slim.get_model_variables'' [Lit ''InceptionV1'']]
      in Call TensorFlow ''init_fn'' [init_fn, sess])"

text \<open>
  From \<^verbatim>\<open>docs/examples/from-tensorflow.ipynb\<close>:
  \<^verbatim>\<open>
  lambda t, x: tf.layers.batch_normalization(x, momentum=0.9)

  def tensor_func(t, x):
      t = nengo_dl.utils.print_op(t, "t:")
      with tf.control_dependencies([t]):
          x = nengo_dl.utils.print_op(x, "x:")
      return tf.add(t, x)

  class TensorFunc:
      def pre_build(self, shape_in, shape_out):
          print("in pre_build, scope:", tf.get_default_graph().get_name_scope())
      def __call__(self, t, x):
          print("in build, scope:", tf.get_default_graph().get_name_scope())
          return x
      def post_build(self, sim_sess, rng):
          print("in post_build, scope:", tf.get_default_graph().get_name_scope())
  \<close>
  and from the notebook "Coming from Nengo to NengoDL":
  \<^verbatim>\<open>lambda t, x: tf.exp(x)\<close>.
  The methods of \<open>TensorFunc\<close> return what they print next to their result; the name
  scope of the graph under construction is a parameter.
\<close>

definition batch_norm_func :: "expr \<Rightarrow> expr \<Rightarrow> expr" where
  "batch_norm_func t x =
     Call TensorFlow ''tf.layers.batch_normalization'' [x, Lit ''momentum=0.9'']"

definition tensor_func :: "expr \<Rightarrow> expr \<Rightarrow> expr" where
  "tensor_func t x =
     (let t = Call NengoDL ''nengo_dl.utils.print_op'' [t, Lit ''t:''];
          x = Call TensorFlow ''tf.control_dependencies''
                [t, Call NengoDL ''nengo_dl.utils.print_op'' [x, Lit ''x:'']]
      in Call TensorFlow ''tf.add'' [t, x])"

definition TensorFunc_pre_build :: "string \<Rightarrow> string list" where
  "TensorFunc_pre_build scope = [''in pre_build, scope: '' @ scope]"

definition TensorFunc_call :: "string \<Rightarrow> expr \<Rightarrow> expr \<Rightarrow> expr \<times> string list" where
  "TensorFunc_call scope t x = (x, [''in build, scope: '' @ scope])"

definition TensorFunc_post_build :: "string \<Rightarrow> string list" where
  "TensorFunc_post_build scope = [''in post_build, scope: '' @ scope]"

definition exp_func :: "expr \<Rightarrow> expr \<Rightarrow> expr" where
  "exp_func t x = Call TensorFlow ''tf.exp'' [x]"

text \<open>
  The seven places where the notebooks construct a \<open>nengo_dl.TensorNode\<close>, each under
  the name it is assigned to, with its callable as the simulator finds it when it
  builds the graph (after \<open>pre_build\<close>). A node without \<open>size_in\<close> calls its function
  with the time alone, a node with \<open>size_in\<close> with the time and the input. The globals
  have the values the notebook gave them when the node is built: \<open>image_shape\<close> is
  \<open>(28, 28)\<close> for the Keras node and the shape of the downloaded image, a parameter, for
  the Inception node.
\<close>

datatype callable =
    OfTime "expr \<Rightarrow> py_error + expr"
  | OfTimeInput "expr \<Rightarrow> expr \<Rightarrow> py_error + expr"

fun node_output :: "callable \<Rightarrow> expr \<Rightarrow> expr \<Rightarrow> py_error + expr" where
  "node_output (OfTime f) t x = f t"
| "node_output (OfTimeInput f) t x = f t x"

definition tensor_nodes :: "int list \<Rightarrow> (string \<times> callable) list" where
  "tensor_nodes image_shape =
     [(''node'', OfTime (\<lambda>t. Inr (sin_func t))),
      (''keras_node'',
         OfTimeInput (\<lambda>t x. Inr (KerasNode_call [28, 28]
           (KerasNode_pre_build (KerasNode_init (Obj ''model''))) t x))),
      (''incep_node'',
         OfTimeInput (InceptionNode_call image_shape
           (fst (InceptionNode_pre_build ''/tmp/checkpoints'' False InceptionNode_init)))),
      (''batch_norm'', OfTimeInput (\<lambda>t x. Inr (batch_norm_func t x))),
      (''b'', OfTimeInput (\<lambda>t x. Inr (tensor_func t x))),
      (''a'', OfTimeInput (\<lambda>t x. Inr (fst (TensorFunc_call [] t x)))),
      (''exp_tf'', OfTimeInput (\<lambda>t x. Inr (exp_func t x)))]"

fun tensors :: "expr \<Rightarrow> string list" where
  "tensors (Tensor n) = [n]"
| "tensors (Call w f args) = concat (map tensors args)"
| "tensors _ = []"

fun tf_operation :: "expr \<Rightarrow> bool" where
  "tf_operation (Call w f args) = (w = TensorFlow)"
| "tf_operation _ = False"

text \<open>
  The output of a node is built out of TensorFlow operations applied to its tensor inputs:
  the callable returns the result of a TensorFlow function, and the tensors that result
  is made of are inputs of the callable, at least one of them.
\<close>

definition tf_built :: "callable \<Rightarrow> expr \<Rightarrow> expr \<Rightarrow> bool" where
  "tf_built c t x =
     (case node_output c t x of
        Inl e \<Rightarrow> False
      | Inr out \<Rightarrow> tf_operation out \<and> tensors out \<noteq> [] \<and>
                  set (tensors out) \<subseteq> set (tensors t) \<union> set (tensors x))"

section \<open>The notebooks as linear scripts\<close>

text \<open>
  The four notebooks are \<^verbatim>\<open>docs/examples/tensorflow-models.ipynb\<close>,
  \<^verbatim>\<open>docs/examples/from-tensorflow.ipynb\<close>, \<^verbatim>\<open>docs/examples/spiking-mnist.ipynb\<close>
  and the notebook "Coming from Nengo to NengoDL". A notebook is the list of its code
  cells, top to bottom, and a cell the list of its statements. A statement keeps its
  kind, the names it binds and the names it reads; of an expression only the names it
  reads are kept, apart from the parameters of its own lambdas and the variables of its
  own comprehensions. The statement kinds are the ones the notebooks use: there is no
  \<open>try\<close>, \<open>while\<close>, \<open>global\<close> or \<open>del\<close> in them.

  \<^item> \<open>Magic l\<close>: an IPython line \<open>%...\<close> or \<open>!...\<close>;
  \<^item> \<open>Import m ns\<close>: \<open>import\<close> or \<open>from ... import\<close> of the top-level module \<open>m\<close>,
    binding the names \<open>ns\<close>;
  \<^item> \<open>Assign ts ls\<close>: an assignment binding the names \<open>ts\<close>, reading \<open>ls\<close>;
  \<^item> \<open>Store r p ls\<close>: an assignment to the attribute or subscript \<open>p\<close> of the object
    named \<open>r\<close>, reading \<open>ls\<close>;
  \<^item> \<open>ExprStmt ls\<close>: an expression statement;
  \<^item> \<open>ForStmt ts ls b\<close>: \<open>for ts in\<close> an expression reading \<open>ls\<close>, with body \<open>b\<close>;
  \<^item> \<open>WithStmt ls ts b\<close>: \<open>with\<close> context managers reading \<open>ls\<close>, \<open>as ts\<close>, with body \<open>b\<close>;
  \<^item> \<open>IfStmt ls a b\<close>: \<open>if\<close> a test reading \<open>ls\<close>, with the two branches;
  \<^item> \<open>FunDef n ps ds b\<close>: \<open>def n(ps)\<close> with defaults reading \<open>ds\<close> and body \<open>b\<close>;
  \<^item> \<open>ClassDef n bs b\<close>: \<open>class n(bs)\<close> with body \<open>b\<close>;
  \<^item> \<open>Return ls\<close>, \<open>Raise ls\<close>, \<open>Pass\<close>.
\<close>

datatype stmt =
    Magic string
  | Import string "string list"
  | Assign "string list" "string list"
  | Store string string "string list"
  | ExprStmt "string list"
  | ForStmt "string list" "string list" "stmt list"
  | WithStmt "string list" "string list" "stmt list"
  | IfStmt "string list" "stmt list" "stmt list"
  | FunDef string "string list" "string list" "stmt list"
  | ClassDef string "string list" "stmt list"
  | Return "string list"
  | Raise "string list"
  | Pass

definition tensorflow_models :: "stmt list list" where
  "tensorflow_models = [
    [
      Magic ''%matplotlib inline'',
      Import ''sys'' [''sys''],
      Import ''os'' [''os''],
      Import ''urllib'' [''urlopen''],
      Import ''io'' [''io''],
      Import ''shutil'' [''shutil''],
      Import ''stat'' [''stat''],
      Import ''numpy'' [''np''],
      Import ''matplotlib'' [''plt''],
      Import ''PIL'' [''Image''],
      Import ''tensorflow'' [''tf''],
      Import ''tensorflow'' [''keras''],
      Import ''tensorflow'' [''slim''],
      Import ''nengo'' [''nengo''],
      Import ''nengo_dl'' [''nengo_dl'']],
    [
      WithStmt [''nengo''] [''net''] [
        FunDef ''sin_func'' [''t''] [] [
          Assign [''out''] [''tf'', ''t''],
          Assign [''out''] [''tf'', ''out''],
          Return [''out'']],
        Assign [''node''] [''nengo_dl'', ''sin_func''],
        Assign [''p''] [''nengo'', ''node'']],
      WithStmt [''nengo_dl'', ''net''] [''sim''] [
        ExprStmt [''sim'']],
      ExprStmt [''plt''],
      ExprStmt [''plt'', ''sim'', ''p'']],
    [
      Assign [''fashion_mnist''] [''keras''],
      Assign [''train_images'', ''train_labels'', ''test_images'', ''test_labels''] [''fashion_mnist''],
      Assign [''num_classes''] [''np'', ''test_labels''],
      Assign [''train_images''] [''train_images''],
      Assign [''test_images''] [''test_images''],
      Assign [''class_names''] [],
      ForStmt [''i''] [''range''] [
        ExprStmt [''plt''],
        ExprStmt [''plt'', ''test_images'', ''i''],
        ExprStmt [''plt''],
        ExprStmt [''plt'', ''class_names'', ''test_labels'', ''i'']]],
    [
      Assign [''image_shape''] [],
      Assign [''model''] [''keras'', ''image_shape'', ''tf'', ''num_classes''],
      ExprStmt [''model'', ''tf''],
      ExprStmt [''model'', ''train_images'', ''train_labels'']],
    [
      Assign [''model_weights''] [],
      ExprStmt [''model'', ''model_weights'']],
    [
      ClassDef ''KerasNode'' [] [
        FunDef ''__init__'' [''self'', ''keras_model''] [] [
          Store ''self'' ''self.model'' [''self'', ''keras_model'']],
        FunDef ''pre_build'' [''self'', ''args''] [] [
          Store ''self'' ''self.model'' [''self'', ''keras'']],
        FunDef ''__call__'' [''self'', ''t'', ''x''] [] [
          Assign [''images''] [''tf'', ''x'', ''image_shape''],
          Return [''self'', ''images'']],
        FunDef ''post_build'' [''self'', ''sess'', ''rng''] [] [
          ExprStmt [''self'', ''model_weights'']]]],
    [
      WithStmt [''tf''] [] [
        ExprStmt [''model'', ''model_weights''],
        Assign [''out1''] [''model'', ''tf'', ''test_images''],
        ExprStmt [''print'', ''type'', ''out1''],
        Assign [''out2''] [''model'', ''test_images''],
        ExprStmt [''print'', ''type'', ''out2'']]],
    [
      Assign [''net_input_shape''] [''np'', ''image_shape''],
      WithStmt [''nengo''] [''net''] [
        Assign [''input_node''] [''nengo'', ''np'', ''net_input_shape''],
        Assign [''keras_node''] [''nengo_dl'', ''KerasNode'', ''model'', ''net_input_shape'', ''num_classes''],
        ExprStmt [''nengo'', ''input_node'', ''keras_node''],
        Assign [''keras_p''] [''nengo'', ''keras_node'']]],
    [
      Assign [''minibatch_size''] [],
      ExprStmt [''np''],
      Assign [''test_inds''] [''np'', ''test_images'', ''minibatch_size''],
      Assign [''test_inputs''] [''test_images'', ''test_inds''],
      Assign [''test_inputs''] [''test_inputs'', ''net_input_shape''],
      Assign [''test_inputs''] [''test_inputs'']],
    [
      WithStmt [''nengo_dl'', ''net'', ''minibatch_size''] [''sim''] [
        ExprStmt [''sim'', ''input_node'', ''test_inputs'']]],
    [
      Assign [''tensornode_output''] [''sim'', ''keras_p''],
      ForStmt [''i''] [''range''] [
        ExprStmt [''plt''],
        ExprStmt [''plt'', ''test_images'', ''test_inds'', ''i''],
        ExprStmt [''plt''],
        ExprStmt [''plt'', ''class_names'', ''test_labels'', ''test_inds'', ''i'', ''np'', ''tensornode_output'']]],
    [
      Magic ''!git clone -q https://github.com/tensorflow/models'',
      ExprStmt [''sys'', ''os''],
      Import ''datasets'' [''dataset_utils'', ''imagenet''],
      Import ''nets'' [''inception''],
      Import ''preprocessing'' [''inception_preprocessing'']],
    [
      Assign [''url''] [],
      Assign [''image_string''] [''urlopen'', ''url''],
      Assign [''image''] [''np'', ''Image'', ''io'', ''image_string''],
      Assign [''image_shape''] [''image''],
      ExprStmt [''plt''],
      ExprStmt [''plt'', ''image''],
      ExprStmt [''plt'']],
    [
      Assign [''checkpoints_dir''] [],
      ClassDef ''InceptionNode'' [] [
        FunDef ''pre_build'' [''self'', ''args''] [] [
          Store ''self'' ''self.input_shape'' [''self'', ''inception''],
          IfStmt [''tf'', ''checkpoints_dir''] [
            ExprStmt [''tf'', ''checkpoints_dir'']] [],
          ExprStmt [''dataset_utils'', ''checkpoints_dir'']],
        FunDef ''__call__'' [''self'', ''t'', ''x''] [] [
          Assign [''img''] [''tf'', ''x'', ''image_shape''],
          Assign [''img''] [''inception_preprocessing'', ''img'', ''self''],
          Assign [''img''] [''tf'', ''img''],
          WithStmt [''slim'', ''inception''] [] [
            Assign [''logits'', ''_''] [''inception'', ''img'']],
          Return [''tf'', ''logits'']],
        FunDef ''post_build'' [''self'', ''sess'', ''rng''] [] [
          Assign [''init_fn''] [''slim'', ''os'', ''checkpoints_dir''],
          ExprStmt [''init_fn'', ''sess'']]]],
    [
      WithStmt [''nengo''] [''net''] [
        Assign [''input_node''] [''nengo'', ''image''],
        Assign [''incep_node''] [''nengo_dl'', ''InceptionNode'', ''np'', ''image_shape''],
        ExprStmt [''nengo'', ''input_node'', ''incep_node''],
        Assign [''input_p''] [''nengo'', ''input_node''],
        Assign [''incep_p''] [''nengo'', ''incep_node'']]],
    [
      WithStmt [''nengo_dl'', ''net''] [''sim''] [
        ExprStmt [''sim'']],
      Assign [''probabilities''] [''sim'', ''incep_p''],
      Assign [''sorted_inds''] [''sorted'', ''enumerate'', ''probabilities''],
      Assign [''names''] [''imagenet''],
      ForStmt [''i''] [''range''] [
        Assign [''index''] [''sorted_inds'', ''i''],
        ExprStmt [''print'', ''probabilities'', ''index'', ''names'']],
      ExprStmt [''plt''],
      ExprStmt [''plt'', ''sim'', ''input_p'', ''image_shape'', ''np''],
      ExprStmt [''plt'']],
    [
      FunDef ''onerror'' [''func'', ''path'', ''exc_info''] [] [
        IfStmt [''os'', ''path''] [
          ExprStmt [''os'', ''path'', ''stat''],
          ExprStmt [''func'', ''path'']] [
          Raise [''exc_info'']]],
      ExprStmt [''shutil'', ''onerror'']]]"

definition from_tensorflow :: "stmt list list" where
  "from_tensorflow = [
    [
      Magic ''%matplotlib inline'',
      Import ''gzip'' [''gzip''],
      Import ''pickle'' [''pickle''],
      Import ''urllib'' [''urlretrieve''],
      Import ''matplotlib'' [''plt''],
      Import ''nengo'' [''nengo''],
      Import ''nengo'' [''rasterplot''],
      Import ''numpy'' [''np''],
      Import ''tensorflow'' [''tf''],
      Import ''nengo_dl'' [''nengo_dl'']],
    [
      Assign [''n_in''] [],
      Assign [''n_hidden''] [],
      Assign [''minibatch_size''] [],
      WithStmt [''tf''] [''auto_graph''] [
        Assign [''tf_a''] [''tf'', ''minibatch_size'', ''n_in''],
        Assign [''tf_b''] [''tf'', ''tf_a'', ''n_hidden''],
        Assign [''tf_c''] [''tf'', ''tf_b'', ''n_in'']]],
    [
      WithStmt [''nengo''] [''auto_net''] [
        Assign [''nengo_a''] [''nengo'', ''np'', ''n_in''],
        Assign [''nengo_b''] [''nengo'', ''n_hidden''],
        ExprStmt [''nengo'', ''nengo_a'', ''nengo_b'', ''nengo_dl''],
        Assign [''nengo_c''] [''nengo'', ''n_in''],
        ExprStmt [''nengo'', ''nengo_b'', ''nengo_c'', ''nengo_dl''],
        Assign [''p_c''] [''nengo'', ''nengo_c'']]],
    [
      WithStmt [''tf'', ''auto_graph''] [''sess''] [
        ExprStmt [''sess'', ''tf''],
        Assign [''output''] [''sess'', ''tf_c'', ''tf_a'', ''np'', ''minibatch_size'', ''n_in'']]],
    [
      WithStmt [''nengo_dl'', ''auto_net'', ''minibatch_size''] [''sim''] [
        ExprStmt [''sim'', ''nengo_a'', ''np'', ''minibatch_size'', ''n_in'']]],
    [
      WithStmt [''nengo''] [''net''] [
        Assign [''a''] [''nengo'', ''np''],
        Assign [''b_rate''] [''nengo''],
        ExprStmt [''nengo'', ''a'', ''b_rate''],
        Assign [''b_spike''] [''nengo''],
        ExprStmt [''nengo'', ''a'', ''b_spike''],
        Assign [''p_a''] [''nengo'', ''a''],
        Assign [''p_rate''] [''nengo'', ''b_rate''],
        Assign [''p_spike''] [''nengo'', ''b_spike'']],
      WithStmt [''nengo_dl'', ''net''] [''sim''] [
        ExprStmt [''sim'']],
      ExprStmt [''plt''],
      ExprStmt [''plt'', ''sim'', ''p_a''],
      ExprStmt [''plt''],
      ExprStmt [''plt''],
      ExprStmt [''plt''],
      ExprStmt [''plt''],
      ExprStmt [''plt'', ''sim'', ''p_rate''],
      ExprStmt [''plt''],
      ExprStmt [''plt''],
      ExprStmt [''plt''],
      ExprStmt [''plt''],
      ExprStmt [''rasterplot'', ''sim'', ''p_spike''],
      ExprStmt [''plt''],
      ExprStmt [''plt''],
      ExprStmt [''plt'']],
    [
      Assign [''filt''] [''nengo''],
      Assign [''filtered_spikes''] [''filt'', ''sim'', ''p_spike''],
      ExprStmt [''plt''],
      ExprStmt [''plt'', ''sim'', ''filtered_spikes''],
      ExprStmt [''plt''],
      ExprStmt [''plt'']],
    [
      WithStmt [''net''] [] [
        Assign [''batch_norm''] [''nengo_dl'', ''b_rate'', ''tf''],
        Assign [''p_batch_norm''] [''nengo'', ''batch_norm'']]],
    [
      WithStmt [''net''] [] [
        Assign [''batch_norm''] [''nengo_dl'', ''tf''],
        ExprStmt [''nengo'', ''b_rate'', ''batch_norm''],
        Assign [''p_batch_norm''] [''nengo'', ''batch_norm'']]],
    [
      WithStmt [''nengo''] [''net''] [
        Assign [''a''] [''nengo''],
        FunDef ''tensor_func'' [''t'', ''x''] [] [
          Assign [''t''] [''nengo_dl'', ''t''],
          WithStmt [''tf'', ''t''] [] [
            Assign [''x''] [''nengo_dl'', ''x'']],
          Return [''tf'', ''t'', ''x'']],
        Assign [''b''] [''nengo_dl'', ''tensor_func''],
        ExprStmt [''nengo'', ''a'', ''b''],
        Assign [''p''] [''nengo'', ''b'']],
      WithStmt [''nengo_dl'', ''net''] [''sim''] [
        ExprStmt [''print''],
        ExprStmt [''sim''],
        ExprStmt [''print''],
        ExprStmt [''print'', ''sim'', ''p'']]],
    [
      WithStmt [''nengo''] [''net''] [
        ClassDef ''TensorFunc'' [] [
          FunDef ''pre_build'' [''self'', ''shape_in'', ''shape_out''] [] [
            ExprStmt [''print'', ''tf'']],
          FunDef ''__call__'' [''self'', ''t'', ''x''] [] [
            ExprStmt [''print'', ''tf''],
            Return [''x'']],
          FunDef ''post_build'' [''self'', ''sim_sess'', ''rng''] [] [
            ExprStmt [''print'', ''tf'']]],
        Assign [''a''] [''nengo_dl'', ''TensorFunc'']],
      WithStmt [''nengo_dl'', ''net''] [''sim''] [
        Pass]],
    [
      ExprStmt [''urlretrieve''],
      WithStmt [''gzip''] [''f''] [
        Assign [''train_data'', ''_'', ''_'', ''test_data'', ''_''] [''pickle'', ''f'']],
      ExprStmt [''np'', ''train_data''],
      Assign [''n_epochs''] []],
    [
      WithStmt [''auto_graph''] [] [
        Assign [''targets''] [''tf'', ''minibatch_size'', ''n_in''],
        Assign [''loss''] [''tf'', ''targets'', ''tf_c''],
        Assign [''optimizer''] [''tf''],
        Assign [''opt_op''] [''optimizer'', ''loss'']],
      WithStmt [''tf'', ''auto_graph''] [''sess''] [
        ExprStmt [''sess'', ''tf''],
        ForStmt [''i''] [''range'', ''n_epochs''] [
          ForStmt [''j''] [''range'', ''len'', ''train_data'', ''minibatch_size''] [
            ExprStmt [''sess'', ''opt_op'', ''tf_a'', ''targets'', ''train_data'', ''j'', ''minibatch_size'']]],
        Assign [''error''] [''np'', ''range'', ''len'', ''test_data'', ''minibatch_size'', ''sess'', ''loss'', ''tf_a'', ''targets''],
        ExprStmt [''print'', ''error''],
        Assign [''output''] [''sess'', ''tf_c'', ''tf_a'', ''test_data'', ''minibatch_size''],
        ExprStmt [''plt''],
        ExprStmt [''plt'', ''output'']]],
    [
      ForStmt [''ens''] [''auto_net''] [
        Store ''ens'' ''ens.gain'' [''ens'', ''nengo''],
        Store ''ens'' ''ens.bias'' [''ens'', ''nengo'']],
      ForStmt [''conn''] [''auto_net''] [
        Store ''conn'' ''conn.synapse'' [''conn'']]],
    [
      Assign [''train_data''] [''train_data''],
      Assign [''test_data''] [''test_data'']],
    [
      FunDef ''mse'' [''out'', ''tar''] [] [
        Return [''tf'', ''out'', ''tar'']],
      WithStmt [''nengo_dl'', ''auto_net'', ''minibatch_size''] [''sim''] [
        ExprStmt [''sim'', ''nengo_a'', ''p_c'', ''train_data'', ''tf'', ''mse'', ''n_epochs''],
        Assign [''error''] [''sim'', ''nengo_a'', ''p_c'', ''test_data'', ''mse''],
        ExprStmt [''print'', ''error''],
        ExprStmt [''sim'', ''nengo_a'', ''test_data'', ''minibatch_size''],
        ExprStmt [''plt''],
        ExprStmt [''plt'', ''sim'', ''p_c'']]],
    [
      WithStmt [''nengo''] [''net''] [
        Assign [''inpt''] [''nengo''],
        Assign [''ens0''] [''nengo''],
        Assign [''ens1''] [''nengo''],
        Assign [''outpt''] [''nengo''],
        ExprStmt [''nengo'', ''inpt'', ''ens0''],
        ExprStmt [''nengo'', ''ens0'', ''ens1'', ''np''],
        ExprStmt [''nengo'', ''ens1'', ''outpt'', ''np''],
        Assign [''inpt_p''] [''nengo'', ''inpt''],
        Assign [''outpt_p''] [''nengo'', ''outpt'']],
      WithStmt [''nengo_dl'', ''net''] [''sim''] [
        ExprStmt [''sim'']],
      ExprStmt [''plt''],
      ExprStmt [''plt'', ''sim'', ''inpt_p''],
      ExprStmt [''plt'', ''sim'', ''np'', ''inpt_p''],
      ExprStmt [''plt'', ''sim'', ''outpt_p''],
      ExprStmt [''plt'']],
    [
      WithStmt [''nengo'', ''net''] [''sim''] [
        ExprStmt [''sim'']],
      ExprStmt [''plt''],
      ExprStmt [''plt'', ''sim'', ''inpt_p''],
      ExprStmt [''plt'', ''sim'', ''np'', ''inpt_p''],
      ExprStmt [''plt'', ''sim'', ''outpt_p''],
      ExprStmt [''plt'']]]"

definition spiking_mnist :: "stmt list list" where
  "spiking_mnist = [
    [
      Magic ''%matplotlib inline'',
      Import ''gzip'' [''gzip''],
      Import ''pickle'' [''pickle''],
      Import ''urllib'' [''urlretrieve''],
      Import ''zipfile'' [''zipfile''],
      Import ''nengo'' [''nengo''],
      Import ''tensorflow'' [''tf''],
      Import ''numpy'' [''np''],
      Import ''matplotlib'' [''plt''],
      Import ''nengo_dl'' [''nengo_dl'']],
    [
      ExprStmt [''urlretrieve''],
      WithStmt [''gzip''] [''f''] [
        Assign [''train_data'', ''_'', ''test_data''] [''pickle'', ''f'']],
      Assign [''train_data''] [''list'', ''train_data''],
      Assign [''test_data''] [''list'', ''test_data''],
      ForStmt [''data''] [''train_data'', ''test_data''] [
        Assign [''one_hot''] [''np'', ''data''],
        Store ''one_hot'' ''one_hot[np.arange(data[0].shape[0]), data[1]]'' [''one_hot'', ''np'', ''data''],
        Store ''data'' ''data[1]'' [''data'', ''one_hot'']],
      ForStmt [''i''] [''range''] [
        ExprStmt [''plt''],
        ExprStmt [''plt'', ''np'', ''train_data'', ''i''],
        ExprStmt [''plt''],
        ExprStmt [''plt'', ''str'', ''np'', ''train_data'', ''i'']]],
    [
      WithStmt [''nengo''] [''net''] [
        Store ''net'' ''net.config[nengo.Ensemble].max_rates'' [''net'', ''nengo''],
        Store ''net'' ''net.config[nengo.Ensemble].intercepts'' [''net'', ''nengo''],
        Assign [''neuron_type''] [''nengo''],
        ExprStmt [''nengo_dl''],
        Assign [''inp''] [''nengo''],
        Assign [''x''] [''nengo_dl'', ''inp'', ''tf''],
        Assign [''x''] [''nengo_dl'', ''x'', ''neuron_type''],
        Assign [''x''] [''nengo_dl'', ''x'', ''tf''],
        Assign [''x''] [''nengo_dl'', ''x'', ''neuron_type''],
        Assign [''x''] [''nengo_dl'', ''x'', ''tf''],
        Assign [''x''] [''nengo_dl'', ''x'', ''tf''],
        Assign [''x''] [''nengo_dl'', ''x'', ''neuron_type''],
        Assign [''x''] [''nengo_dl'', ''x'', ''tf''],
        Assign [''x''] [''nengo_dl'', ''x'', ''tf''],
        Assign [''out_p''] [''nengo'', ''x''],
        Assign [''out_p_filt''] [''nengo'', ''x'']]],
    [
      Assign [''minibatch_size''] [],
      Assign [''sim''] [''nengo_dl'', ''net'', ''minibatch_size'']],
    [
      Assign [''train_data''] [''inp'', ''out_p'', ''train_data''],
      Assign [''n_steps''] [],
      Assign [''test_data''] [''inp'', ''out_p_filt'', ''np'', ''test_data'', ''minibatch_size'', ''n_steps'']],
    [
      FunDef ''objective'' [''outputs'', ''targets''] [] [
        Return [''tf'', ''outputs'', ''targets'']]],
    [
      Assign [''opt''] [''tf'']],
    [
      FunDef ''classification_error'' [''outputs'', ''targets''] [] [
        Return [''tf'', ''outputs'', ''targets'']],
      ExprStmt [''print'', ''sim'', ''test_data'', ''out_p_filt'', ''classification_error'']],
    [
      Assign [''do_training''] [],
      IfStmt [''do_training''] [
        ExprStmt [''sim'', ''train_data'', ''opt'', ''out_p'', ''objective''],
        ExprStmt [''sim'']] [
        ExprStmt [''urlretrieve''],
        WithStmt [''zipfile''] [''f''] [
          ExprStmt [''f'']],
        ExprStmt [''sim'']]],
    [
      ExprStmt [''print'', ''sim'', ''test_data'', ''out_p_filt'', ''classification_error'']],
    [
      ExprStmt [''sim'', ''n_steps'', ''inp'', ''test_data'', ''minibatch_size''],
      ForStmt [''i''] [''range''] [
        ExprStmt [''plt''],
        ExprStmt [''plt''],
        ExprStmt [''plt'', ''np'', ''test_data'', ''inp'', ''i''],
        ExprStmt [''plt''],
        ExprStmt [''plt''],
        ExprStmt [''plt'', ''sim'', ''out_p_filt'', ''i''],
        ExprStmt [''plt'', ''range'', ''str''],
        ExprStmt [''plt'']]],
    [
      ExprStmt [''sim'']]]"

definition from_nengo :: "stmt list list" where
  "from_nengo = [
    [
      Magic ''%matplotlib inline'',
      Import ''matplotlib'' [''plt''],
      Import ''nengo'' [''nengo''],
      Import ''numpy'' [''np''],
      Import ''tensorflow'' [''tf''],
      Import ''nengo_dl'' [''nengo_dl''],
      Assign [''seed''] [],
      ExprStmt [''np'', ''seed'']],
    [
      WithStmt [''nengo'', ''seed''] [''net''] [
        Assign [''inpt''] [''nengo''],
        Assign [''square''] [''nengo''],
        Assign [''sin''] [''nengo''],
        Assign [''outpt''] [''nengo''],
        ExprStmt [''nengo'', ''inpt'', ''square''],
        ExprStmt [''nengo'', ''square'', ''sin'', ''np''],
        ExprStmt [''nengo'', ''sin'', ''outpt'', ''np''],
        Assign [''inpt_p''] [''nengo'', ''inpt''],
        Assign [''outpt_p''] [''nengo'', ''outpt'']]],
    [
      WithStmt [''nengo'', ''net'', ''seed''] [''sim''] [
        ExprStmt [''sim'']]],
    [
      FunDef ''plot'' [''plot_sim'', ''ax'', ''idx''] [''slice''] [
        IfStmt [''ax''] [
          ExprStmt [''plt''],
          Assign [''ax''] [''plt'']] [],
        ExprStmt [''ax'', ''plot_sim'', ''inpt_p'', ''idx''],
        ExprStmt [''ax'', ''plot_sim'', ''np'', ''inpt_p'', ''idx''],
        ExprStmt [''ax'', ''plot_sim'', ''outpt_p'', ''idx''],
        ExprStmt [''ax'']],
      ExprStmt [''plot'', ''sim'']],
    [
      WithStmt [''nengo_dl'', ''net'', ''seed''] [''sim''] [
        ExprStmt [''sim'']],
      ExprStmt [''plot'', ''sim'']],
    [
      Assign [''reps''] [],
      WithStmt [''nengo'', ''net''] [''sim''] [
        Assign [''_'', ''axes''] [''plt'', ''reps''],
        ForStmt [''i''] [''range'', ''reps''] [
          ExprStmt [''sim''],
          ExprStmt [''plot'', ''sim'', ''axes'', ''i''],
          ExprStmt [''sim'', ''i'']]]],
    [
      WithStmt [''nengo_dl'', ''net'', ''reps''] [''sim''] [
        ExprStmt [''sim'']],
      Assign [''_'', ''axes''] [''plt'', ''reps''],
      ForStmt [''i''] [''range'', ''reps''] [
        ExprStmt [''plot'', ''sim'', ''axes'', ''i'']]],
    [
      WithStmt [''nengo_dl'', ''net''] [''sim''] [
        ExprStmt [''sim'', ''inpt'', ''np'']],
      ExprStmt [''plot'', ''sim'']],
    [
      WithStmt [''nengo_dl'', ''net'', ''reps''] [''sim''] [
        ExprStmt [''sim'', ''inpt'', ''np'', ''reps'']],
      Assign [''_'', ''axes''] [''plt'', ''reps''],
      ForStmt [''i''] [''range'', ''reps''] [
        ExprStmt [''plot'', ''sim'', ''axes'', ''i''],
        ExprStmt [''axes'', ''i'']]],
    [
      ForStmt [''conn''] [''net''] [
        Store ''conn'' ''conn.synapse'' [''conn'']],
      WithStmt [''net''] [] [
        Assign [''outpt_p_nofilt''] [''nengo'', ''outpt'']],
      Store ''outpt_p'' ''outpt_p.synapse'' [''outpt_p'']],
    [
      WithStmt [''nengo_dl'', ''net'', ''seed''] [''sim''] [
        ExprStmt [''sim''],
        ExprStmt [''plot'', ''sim'']]],
    [
      WithStmt [''net''] [] [
        ExprStmt [''nengo_dl''],
        Store ''net'' ''net.config[nengo.Ensemble].trainable'' [''net'', ''nengo'']]],
    [
      Assign [''batch_size''] [],
      Assign [''minibatch_size''] [],
      Assign [''n_steps''] [],
      Assign [''vals''] [''np'', ''batch_size'', ''n_steps''],
      Assign [''data''] [''inpt'', ''outpt_p_nofilt'', ''vals'', ''np'']],
    [
      WithStmt [''nengo_dl'', ''net'', ''minibatch_size'', ''seed''] [''sim''] [
        ExprStmt [''sim'', ''data'', ''tf'', ''outpt_p_nofilt'', ''nengo_dl''],
        ExprStmt [''sim''],
        ExprStmt [''plot'', ''sim'']]],
    [
      Assign [''test_vals''] [''np'']],
    [
      Assign [''test_steps''] [],
      Assign [''test_vals''] [''np'', ''test_vals'', ''test_steps''],
      Assign [''test_data''] [''inpt'', ''outpt_p'', ''test_vals'', ''np'']],
    [
      FunDef ''test_mse'' [''outputs'', ''targets''] [] [
        Return [''tf'', ''outputs'', ''targets'']]],
    [
      WithStmt [''nengo_dl'', ''net'', ''minibatch_size'', ''seed''] [''sim''] [
        ExprStmt [''print'', ''sim'', ''test_data'', ''outpt_p'', ''test_mse''],
        ExprStmt [''sim'', ''data'', ''tf'', ''outpt_p_nofilt'', ''nengo_dl''],
        ExprStmt [''print'', ''sim'', ''test_data'', ''outpt_p'', ''test_mse'']]],
    [
      WithStmt [''net''] [] [
        Assign [''exp_np''] [''nengo'', ''np''],
        ExprStmt [''nengo'', ''sin'', ''exp_np''],
        Assign [''np_probe''] [''nengo'', ''exp_np''],
        Assign [''exp_tf''] [''nengo_dl'', ''tf''],
        ExprStmt [''nengo'', ''sin'', ''exp_tf''],
        Assign [''tf_probe''] [''nengo'', ''exp_tf'']],
      WithStmt [''nengo_dl'', ''net'', ''seed''] [''sim''] [
        ExprStmt [''sim'']],
      ExprStmt [''plt''],
      ExprStmt [''plt'', ''sim'', ''np'', ''inpt_p''],
      ExprStmt [''plt'', ''sim'', ''np_probe''],
      ExprStmt [''plt'', ''sim'', ''tf_probe''],
      ExprStmt [''plt''],
      ExprStmt [''plt'']]]"

definition notebooks :: "stmt list list list" where
  "notebooks = [tensorflow_models, from_tensorflow, spiking_mnist, from_nengo]"

subsection \<open>Names bound and names read\<close>

fun binds :: "stmt \<Rightarrow> string list" where
  "binds (Import m ns) = ns"
| "binds (Assign ts ls) = ts"
| "binds (ForStmt ts ls b) = ts @ concat (map binds b)"
| "binds (WithStmt ls ts b) = ts @ concat (map binds b)"
| "binds (IfStmt ls a b) = concat (map binds a) @ concat (map binds b)"
| "binds (FunDef n ps ds b) = n # ps @ concat (map binds b)"
| "binds (ClassDef n bs b) = n # concat (map binds b)"
| "binds _ = []"

fun reads :: "stmt \<Rightarrow> string list" where
  "reads (Assign ts ls) = ls"
| "reads (Store r p ls) = ls"
| "reads (ExprStmt ls) = ls"
| "reads (Return ls) = ls"
| "reads (Raise ls) = ls"
| "reads (ForStmt ts ls b) = ls @ concat (map reads b)"
| "reads (WithStmt ls ts b) = ls @ concat (map reads b)"
| "reads (IfStmt ls a b) = ls @ concat (map reads a) @ concat (map reads b)"
| "reads (FunDef n ps ds b) = ds @ concat (map reads b)"
| "reads (ClassDef n bs b) = bs @ concat (map reads b)"
| "reads _ = []"

text \<open>
  Every name a cell reads is bound by that cell or by an earlier cell, or is one of the
  names \<open>env\<close> bound before the first cell.
\<close>

fun names_bound_first :: "string list \<Rightarrow> stmt list list \<Rightarrow> bool" where
  "names_bound_first env [] = True"
| "names_bound_first env (c # cs) =
     (let env' = concat (map binds c) @ env
      in list_all (\<lambda>x. x \<in> set env') (concat (map reads c)) \<and> names_bound_first env' cs)"

text \<open>
  Running a notebook top to bottom, keeping only which names are bound. Reading a name
  that is not bound raises \<open>NameError\<close>. The run is careful where the source leaves
  something open: a loop body may run no time at all, so what it binds is not counted on
  after the loop; after an \<open>if\<close> only the names both branches bind are counted on; the
  body of a function is checked where the function is defined, with the names bound by
  then, its own name and its parameters.
\<close>

fun lookup_all :: "string list \<Rightarrow> string list \<Rightarrow> py_error option" where
  "lookup_all env [] = None"
| "lookup_all env (x # xs) = (if x \<in> set env then lookup_all env xs else Some (NameError x))"

fun exec :: "stmt \<Rightarrow> string list \<Rightarrow> py_error + string list"
  and exec_block :: "stmt list \<Rightarrow> string list \<Rightarrow> py_error + string list" where
  "exec (Magic l) env = Inr env"
| "exec Pass env = Inr env"
| "exec (Import m ns) env = Inr (ns @ env)"
| "exec (Assign ts ls) env =
     (case lookup_all env ls of Some e \<Rightarrow> Inl e | None \<Rightarrow> Inr (ts @ env))"
| "exec (Store r p ls) env =
     (case lookup_all env ls of Some e \<Rightarrow> Inl e | None \<Rightarrow> Inr env)"
| "exec (ExprStmt ls) env =
     (case lookup_all env ls of Some e \<Rightarrow> Inl e | None \<Rightarrow> Inr env)"
| "exec (Return ls) env =
     (case lookup_all env ls of Some e \<Rightarrow> Inl e | None \<Rightarrow> Inr env)"
| "exec (Raise ls) env =
     (case lookup_all env ls of Some e \<Rightarrow> Inl e | None \<Rightarrow> Inr env)"
| "exec (ForStmt ts ls b) env =
     (case lookup_all env ls of Some e \<Rightarrow> Inl e
      | None \<Rightarrow> (case exec_block b (ts @ env) of Inl e \<Rightarrow> Inl e | Inr _ \<Rightarrow> Inr env))"
| "exec (WithStmt ls ts b) env =
     (case lookup_all env ls of Some e \<Rightarrow> Inl e | None \<Rightarrow> exec_block b (ts @ env))"
| "exec (IfStmt ls a b) env =
     (case lookup_all env ls of Some e \<Rightarrow> Inl e
      | None \<Rightarrow>
         (case exec_block a env of Inl e \<Rightarrow> Inl e
          | Inr ea \<Rightarrow>
             (case exec_block b env of Inl e \<Rightarrow> Inl e
              | Inr eb \<Rightarrow> Inr (filter (\<lambda>x. x \<in> set eb) ea))))"
| "exec (FunDef n ps ds b) env =
     (case lookup_all env ds of Some e \<Rightarrow> Inl e
      | None \<Rightarrow>
         (case exec_block b (n # ps @ env) of Inl e \<Rightarrow> Inl e | Inr _ \<Rightarrow> Inr (n # env)))"
| "exec (ClassDef n bs b) env =
     (case lookup_all env bs of Some e \<Rightarrow> Inl e
      | None \<Rightarrow> (case exec_block b env of Inl e \<Rightarrow> Inl e | Inr _ \<Rightarrow> Inr (n # env)))"
| "exec_block [] env = Inr env"
| "exec_block (s # ss) env =
     (case exec s env of Inl e \<Rightarrow> Inl e | Inr env' \<Rightarrow> exec_block ss env')"

text \<open>The names of Python's builtin namespace that the notebooks read.\<close>

definition py_builtins :: "string list" where
  "py_builtins = [''enumerate'', ''len'', ''list'', ''print'', ''range'', ''slice'',
     ''sorted'', ''str'', ''type'']"

definition run_notebook :: "string list \<Rightarrow> stmt list list \<Rightarrow> py_error + string list" where
  "run_notebook env nb = exec_block (concat nb) env"

fun returns :: "py_error + 'a \<Rightarrow> bool" where
  "returns (Inr v) = True"
| "returns (Inl e) = False"

subsection \<open>What the notebooks define\<close>

text \<open>
  The classes a statement defines, each with its base classes and the attributes its
  methods assign on \<open>self\<close>; the named functions defined outside classes; the top-level
  modules imported; the attribute and subscript assignments made outside function and
  method bodies, that is on the objects of the notebook's module level; the function
  around each \<open>raise\<close> statement.
\<close>

fun self_stores :: "stmt \<Rightarrow> string list" where
  "self_stores (Store r p ls) = (if r = ''self'' then [p] else [])"
| "self_stores (ForStmt ts ls b) = concat (map self_stores b)"
| "self_stores (WithStmt ls ts b) = concat (map self_stores b)"
| "self_stores (IfStmt ls a b) = concat (map self_stores a) @ concat (map self_stores b)"
| "self_stores (FunDef n ps ds b) = concat (map self_stores b)"
| "self_stores _ = []"

fun class_defs :: "stmt \<Rightarrow> (string \<times> string list \<times> string list) list" where
  "class_defs (ClassDef n bs b) =
     (n, bs, remdups (concat (map self_stores b))) # concat (map class_defs b)"
| "class_defs (ForStmt ts ls b) = concat (map class_defs b)"
| "class_defs (WithStmt ls ts b) = concat (map class_defs b)"
| "class_defs (IfStmt ls a b) = concat (map class_defs a) @ concat (map class_defs b)"
| "class_defs (FunDef n ps ds b) = concat (map class_defs b)"
| "class_defs _ = []"

fun fun_defs :: "stmt \<Rightarrow> string list" where
  "fun_defs (FunDef n ps ds b) = n # concat (map fun_defs b)"
| "fun_defs (ForStmt ts ls b) = concat (map fun_defs b)"
| "fun_defs (WithStmt ls ts b) = concat (map fun_defs b)"
| "fun_defs (IfStmt ls a b) = concat (map fun_defs a) @ concat (map fun_defs b)"
| "fun_defs _ = []"

fun imported :: "stmt \<Rightarrow> string list" where
  "imported (Import m ns) = [m]"
| "imported (ForStmt ts ls b) = concat (map imported b)"
| "imported (WithStmt ls ts b) = concat (map imported b)"
| "imported (IfStmt ls a b) = concat (map imported a) @ concat (map imported b)"
| "imported (FunDef n ps ds b) = concat (map imported b)"
| "imported (ClassDef n bs b) = concat (map imported b)"
| "imported _ = []"

fun module_stores :: "stmt \<Rightarrow> (string \<times> string) list" where
  "module_stores (Store r p ls) = [(r, p)]"
| "module_stores (ForStmt ts ls b) = concat (map module_stores b)"
| "module_stores (WithStmt ls ts b) = concat (map module_stores b)"
| "module_stores (IfStmt ls a b) = concat (map module_stores a) @ concat (map module_stores b)"
| "module_stores _ = []"


text \<open>
  The statements that read a given name; of a compound statement the header alone.
\<close>

fun reading :: "string \<Rightarrow> stmt \<Rightarrow> stmt list" where
  "reading x (Assign ts ls) = (if x \<in> set ls then [Assign ts ls] else [])"
| "reading x (Store r p ls) = (if x \<in> set ls then [Store r p ls] else [])"
| "reading x (ExprStmt ls) = (if x \<in> set ls then [ExprStmt ls] else [])"
| "reading x (Return ls) = (if x \<in> set ls then [Return ls] else [])"
| "reading x (Raise ls) = (if x \<in> set ls then [Raise ls] else [])"
| "reading x (ForStmt ts ls b) =
     (if x \<in> set ls then [ForStmt ts ls []] else []) @ concat (map (reading x) b)"
| "reading x (WithStmt ls ts b) =
     (if x \<in> set ls then [WithStmt ls ts []] else []) @ concat (map (reading x) b)"
| "reading x (IfStmt ls a b) =
     (if x \<in> set ls then [IfStmt ls [] []] else []) @
     concat (map (reading x) a) @ concat (map (reading x) b)"
| "reading x (FunDef n ps ds b) =
     (if x \<in> set ds then [FunDef n ps ds []] else []) @ concat (map (reading x) b)"
| "reading x (ClassDef n bs b) =
     (if x \<in> set bs then [ClassDef n bs []] else []) @ concat (map (reading x) b)"
| "reading x _ = []"

definition in_notebook :: "(stmt \<Rightarrow> 'a list) \<Rightarrow> stmt list list \<Rightarrow> 'a list" where
  "in_notebook f nb = concat (map f (concat nb))"

text \<open>The methods each class defines.\<close>

fun method_defs :: "stmt \<Rightarrow> (string \<times> string list) list" where
  "method_defs (ClassDef n bs b) = (n, concat (map fun_defs b)) # concat (map method_defs b)"
| "method_defs (ForStmt ts ls b) = concat (map method_defs b)"
| "method_defs (WithStmt ls ts b) = concat (map method_defs b)"
| "method_defs (IfStmt ls a b) = concat (map method_defs a) @ concat (map method_defs b)"
| "method_defs (FunDef n ps ds b) = concat (map method_defs b)"
| "method_defs _ = []"

text \<open>
  A lambda expression is part of an expression, of which a statement keeps the names
  alone. The lambda expressions are therefore listed on their own, notebook by notebook
  in the order of \<open>notebooks\<close>: the index of the code cell the expression is in, its
  parameters, and the names its body reads.
  \<^item> tensorflow-models, cell 15: \<^verbatim>\<open>lambda x: x[1]\<close>, the sort key of \<open>sorted_inds\<close>;
  \<^item> from-tensorflow, cell 5: \<^verbatim>\<open>lambda t: np.sin(2 * np.pi * t)\<close>, the output of a
    \<open>nengo.Node\<close>;
  \<^item> from-tensorflow, cell 8:
    \<^verbatim>\<open>lambda t, x: tf.layers.batch_normalization(x, momentum=0.9)\<close>;
  \<^item> "Coming from Nengo to NengoDL", cell 18: \<^verbatim>\<open>lambda t, x: np.exp(x)\<close>, the output
    of a \<open>nengo.Node\<close>, and \<^verbatim>\<open>lambda t, x: tf.exp(x)\<close>.
  The spiking-mnist notebook has none. The free names of a lambda expression are the
  names its body reads that are not its parameters.
\<close>

definition lambdas :: "(nat \<times> string list \<times> string list) list list" where
  "lambdas =
     [[(15, [''x''], [''x''])],
      [(5, [''t''], [''np'', ''t'']), (8, [''t'', ''x''], [''tf'', ''x''])],
      [],
      [(18, [''t'', ''x''], [''np'', ''x'']), (18, [''t'', ''x''], [''tf'', ''x''])]]"

definition free_names :: "string list \<Rightarrow> string list \<Rightarrow> string list" where
  "free_names ps rs = filter (\<lambda>r. r \<notin> set ps) rs"

text \<open>
  The free names of every lambda expression listed for a notebook are among the names
  the statements of its cell read.
\<close>

definition lambdas_in_cells ::
  "stmt list list \<Rightarrow> (nat \<times> string list \<times> string list) list \<Rightarrow> bool" where
  "lambdas_in_cells nb ls =
     list_all (\<lambda>(c, ps, rs). c < length nb \<and>
       list_all (\<lambda>r. r \<in> set (concat (map reads (nb ! c)))) (free_names ps rs)) ls"

section \<open>Properties of the one-hot encoding\<close>

lemma assign_pairs_zip:
  assumes "length a = n" "\<forall>i<n. length (a ! i) = 10"
    and "length ls = k" "m + k = n" "\<forall>l\<in>set ls. 0 \<le> l \<and> l \<le> 9"
  shows "\<exists>oh. assign_pairs a (zip [m..<n] ls) v = Inr oh \<and> length oh = n \<and>
           (\<forall>i<n. length (oh ! i) = 10 \<and>
              (\<forall>j<10. oh ! i ! j =
                 (if m \<le> i \<and> int j = ls ! (i - m) then v else a ! i ! j)))"
  using assms
proof (induction ls arbitrary: a m k)
  case Nil
  then show ?case by simp
next
  case (Cons l ls)
  from Cons.prems have mn: "m < n" and kl: "length ls = k - 1" "Suc m + (k - 1) = n"
    by auto
  from Cons.prems have l: "0 \<le> l" "l \<le> 9" by auto
  let ?a = "a[m := (a ! m)[nat l := v]]"
  have ax: "axis_index (length (a ! m)) l = Inr (nat l)"
    using Cons.prems(2) mn l by (simp add: axis_index_def)
  have la: "length ?a = n" using Cons.prems(1) by simp
  have ra: "\<forall>i<n. length (?a ! i) = 10"
    using Cons.prems(1,2) mn by (auto simp: nth_list_update)
  have ls: "\<forall>l\<in>set ls. 0 \<le> l \<and> l \<le> 9" using Cons.prems(5) by simp
  from Cons.IH[OF la ra kl ls]
  obtain oh where oh: "assign_pairs ?a (zip [Suc m..<n] ls) v = Inr oh" "length oh = n"
    "\<forall>i<n. length (oh ! i) = 10 \<and>
        (\<forall>j<10. oh ! i ! j =
           (if Suc m \<le> i \<and> int j = ls ! (i - Suc m) then v else ?a ! i ! j))"
    by blast
  have step: "assign_pairs a (zip [m..<n] (l # ls)) v = Inr oh"
    using mn Cons.prems(1) ax oh(1) by (simp add: upt_conv_Cons)
  have "oh ! i ! j = (if m \<le> i \<and> int j = (l # ls) ! (i - m) then v else a ! i ! j)"
    if "i < n" "j < 10" for i j
  proof (cases "i = m")
    case True
    then show ?thesis
      using oh(3) that Cons.prems(1,2) l by (auto simp: nth_list_update)
  next
    case False
    then show ?thesis
      using oh(3) that Cons.prems(1) by (auto simp: nth_list_update nth_Cons')
  qed
  then show ?case using step oh(2,3) by blast
qed

text \<open>
  C9. For a label array of \<open>n\<close> entries (one for each of the \<open>n\<close> images) with every label
  in \<open>0..9\<close>, the data preparation returns an array of shape \<open>(n, 10)\<close> whose row \<open>i\<close>
  holds 1 at the column given by label \<open>i\<close> and 0 everywhere else, so exactly one entry of
  each row equals 1.
\<close>

theorem one_hot_rows:
  assumes "length labels = n" and "\<forall>l\<in>set labels. 0 \<le> l \<and> l \<le> 9"
  shows "\<exists>oh. one_hot n labels = Inr oh \<and> length oh = n \<and>
           (\<forall>i<n. length (oh ! i) = 10 \<and>
              (\<forall>j<10. oh ! i ! j = (if int j = labels ! i then 1 else 0)) \<and>
              card {j. j < 10 \<and> oh ! i ! j = 1} = 1)"
proof -
  have z: "length (np_zeros n 10) = n" "\<forall>i<n. length (np_zeros n 10 ! i) = 10"
    by (simp_all add: np_zeros_def)
  from assign_pairs_zip[OF z assms(1) _ assms(2), of 0 1]
  obtain oh where oh: "assign_pairs (np_zeros n 10) (zip [0..<n] labels) 1 = Inr oh"
    "length oh = n"
    "\<forall>i<n. length (oh ! i) = 10 \<and>
        (\<forall>j<10. oh ! i ! j = (if 0 \<le> i \<and> int j = labels ! (i - 0) then 1
                              else np_zeros n 10 ! i ! j))"
    by auto
  have run: "one_hot n labels = Inr oh"
    using oh(1) assms(1) by (simp add: one_hot_def broadcast_pairs_def np_arange_def)
  have ent: "oh ! i ! j = (if int j = labels ! i then 1 else 0)" if "i < n" "j < 10" for i j
    using oh(3) that by (simp add: np_zeros_def)
  have "card {j. j < 10 \<and> oh ! i ! j = 1} = 1" if i: "i < n" for i
  proof -
    have li: "0 \<le> labels ! i" "labels ! i \<le> 9"
      using assms i nth_mem[of i labels] by auto
    have "{j. j < 10 \<and> oh ! i ! j = 1} = {nat (labels ! i)}"
      using ent[OF i] li by (auto split: if_splits)
    then show ?thesis by simp
  qed
  then show ?thesis using run oh(2,3) ent by blast
qed

theorem one_hot_rows_witness:
  "length [2, 0, 9 :: int] = 3 \<and>
   one_hot 3 [2, 0, 9] =
     Inr [[0, 0, 1, 0, 0, 0, 0, 0, 0, 0],
          [1, 0, 0, 0, 0, 0, 0, 0, 0, 0],
          [0, 0, 0, 0, 0, 0, 0, 0, 0, 1]] \<and>
   card {j. j < 10 \<and> [0, 0, 1, 0, 0, 0, 0, 0, 0, 0 :: real] ! j = 1} = 1"
proof -
  have c: "one_hot 3 [2, 0, 9] =
     Inr [[0, 0, 1, 0, 0, 0, 0, 0, 0, 0],
          [1, 0, 0, 0, 0, 0, 0, 0, 0, 0],
          [0, 0, 0, 0, 0, 0, 0, 0, 0, 1]]"
    by code_simp
  have h1: "length [2, 0, 9 :: int] = 3" by simp
  have h2: "\<forall>l\<in>set [2, 0, 9 :: int]. 0 \<le> l \<and> l \<le> 9" by simp
  from one_hot_rows[OF h1 h2] obtain oh where
    oh: "one_hot 3 [2, 0, 9] = Inr oh"
      "\<forall>i<3. card {j. j < 10 \<and> oh ! i ! j = 1} = 1"
    by blast
  from oh(2) have "card {j. j < 10 \<and> oh ! 0 ! j = 1} = 1" by simp
  moreover from oh(1) c have "oh ! 0 = [0, 0, 1, 0, 0, 0, 0, 0, 0, 0]" by auto
  ultimately show ?thesis using c by simp
qed

section \<open>Properties of the top-5 selection\<close>

lemma sorted_inds_length: "length (sorted_inds ps) = length ps"
  by (simp add: sorted_inds_def)

lemma sorted_inds_mset: "mset (sorted_inds ps) = mset [0..<length ps]"
proof -
  have "mset (sorted_inds ps) = mset (map fst (enumerate 0 (map uminus ps)))"
    unfolding sorted_inds_def by (simp only: mset_map mset_sort)
  then show ?thesis by (simp add: map_fst_enumerate del: mset_map mset_upt)
qed

lemma sorted_inds_key:
  assumes "k < length ps"
  shows "snd (sort_key snd (enumerate 0 (map uminus ps)) ! k) = - ps ! (sorted_inds ps ! k)"
proof -
  let ?es = "enumerate 0 (map uminus ps)"
  have "sort_key snd ?es ! k \<in> set (sort_key snd ?es)"
    using assms by (intro nth_mem) simp
  then have "sort_key snd ?es ! k \<in> set ?es" by simp
  then have "fst (sort_key snd ?es ! k) < length ps \<and>
      snd (sort_key snd ?es ! k) = map uminus ps ! fst (sort_key snd ?es ! k)"
    by (auto simp: in_set_enumerate_eq)
  then show ?thesis using assms by (simp add: sorted_inds_def)
qed

lemma sorted_inds_mono:
  assumes "a \<le> b" "b < length ps"
  shows "ps ! (sorted_inds ps ! b) \<le> ps ! (sorted_inds ps ! a)"
proof -
  let ?srt = "sort_key snd (enumerate 0 (map uminus ps))"
  have "sorted (map snd ?srt)" by (rule sorted_sort_key)
  then have "map snd ?srt ! a \<le> map snd ?srt ! b"
    using assms by (intro sorted_nth_mono) simp_all
  then have "snd (?srt ! a) \<le> snd (?srt ! b)" using assms by simp
  then show ?thesis using assms sorted_inds_key[of a ps] sorted_inds_key[of b ps] by simp
qed

text \<open>
  C10. For every probability vector, in particular one of length 1001, \<open>sorted_inds\<close> is
  a permutation of the indices \<open>0..n-1\<close> (it has length \<open>n\<close>, no index twice and every
  index), ordered by non-increasing probability; with at least five entries, the five
  printed classes are the first five of it, and no class left out is more probable than
  a printed one.
\<close>

theorem sorted_inds_descending:
  fixes probabilities :: "real list"
  defines "n \<equiv> length probabilities"
  defines "s \<equiv> sorted_inds probabilities"
  shows "length s = n \<and> distinct s \<and> set s = {0..<n} \<and>
         (\<forall>k. Suc k < n \<longrightarrow> probabilities ! (s ! Suc k) \<le> probabilities ! (s ! k)) \<and>
         (5 \<le> n \<longrightarrow> top5 probabilities = Inr (take 5 s) \<and>
            (\<forall>i\<in>set (take 5 s). \<forall>j<n. j \<notin> set (take 5 s) \<longrightarrow>
               probabilities ! j \<le> probabilities ! i))"
proof -
  have len: "length s = n" by (simp add: s_def n_def sorted_inds_length)
  have ms: "mset s = mset [0..<n]" unfolding s_def n_def by (rule sorted_inds_mset)
  have dist: "distinct s" using ms mset_eq_imp_distinct_iff[OF ms] by simp
  have st: "set s = {0..<n}" using mset_eq_setD[OF ms] by simp
  have desc: "probabilities ! (s ! Suc k) \<le> probabilities ! (s ! k)" if "Suc k < n" for k
    using that sorted_inds_mono[of k "Suc k" probabilities] by (simp add: s_def n_def)
  have top: "probabilities ! j \<le> probabilities ! i"
    if n5: "5 \<le> n" and i: "i \<in> set (take 5 s)" and j: "j < n" "j \<notin> set (take 5 s)" for i j
  proof -
    from i obtain a where a: "a < 5" "i = s ! a"
      using len n5 by (auto simp: in_set_conv_nth)
    from j st have "j \<in> set s" by simp
    then obtain b where b: "b < n" "j = s ! b"
      using len by (auto simp: in_set_conv_nth)
    have "\<not> b < 5"
    proof
      assume "b < 5"
      then have "take 5 s ! b = s ! b" "b < length (take 5 s)" using len n5 by simp_all
      then have "j \<in> set (take 5 s)" using b(2) nth_mem by metis
      then show False using j(2) by simp
    qed
    then have "a \<le> b" using a(1) by simp
    then show ?thesis
      using sorted_inds_mono[of a b probabilities] a b by (simp add: s_def n_def)
  qed
  have t5: "top5 probabilities = Inr (take 5 s)" if "5 \<le> n"
    using that len by (simp add: top5_def s_def)
  show ?thesis using len dist st desc top t5 by blast
qed

theorem sorted_inds_descending_witness:
  "5 \<le> length [1/10, 7/10, 2/10, 7/10, 0, 1/2 :: real] \<and>
   sorted_inds [1/10, 7/10, 2/10, 7/10, 0, 1/2] = [1, 3, 5, 2, 0, 4] \<and>
   top5 [1/10, 7/10, 2/10, 7/10, 0, 1/2] = Inr [1, 3, 5, 2, 0] \<and>
   [1/10, 7/10, 2/10, 7/10, 0, 1/2 :: real] ! 4 \<le> [1/10, 7/10, 2/10, 7/10, 0, 1/2] ! 0"
proof -
  have s: "sorted_inds [1/10, 7/10, 2/10, 7/10, 0, 1/2] = [1, 3, 5, 2, 0, 4]"
    by code_simp
  have n: "5 \<le> length [1/10, 7/10, 2/10, 7/10, 0, 1/2 :: real]" by simp
  show ?thesis
    using sorted_inds_descending[of "[1/10, 7/10, 2/10, 7/10, 0, 1/2]"] n
    unfolding s by simp
qed

section \<open>Properties of the error handler\<close>

text \<open>
  C8, as amended. The handler ends by its own \<open>raise\<close> statement exactly when
  \<open>os.access(path, os.W_OK)\<close> is true, and then raises \<open>exc_info[1]\<close> without calling
  \<open>os.chmod\<close> or \<open>func\<close>. When the path is not writable it calls
  \<open>os.chmod(path, stat.S_IWUSR)\<close>; if that call returns, it calls \<open>func(path)\<close> exactly
  once, and the outcome of that retry is the outcome of the handler; if \<open>os.chmod\<close>
  raises, that exception leaves the handler and \<open>func\<close> is not called.
\<close>

theorem onerror_reraise_or_retry:
  fixes sys :: "('s, 'p, 'e) os" and func :: "'p \<Rightarrow> 's \<Rightarrow> 'e + 's" and path :: 'p
    and exc_info :: "'t \<times> 'e \<times> 'b" and s :: 's
  defines "run \<equiv> onerror sys func path exc_info s"
  shows "((\<exists>e. snd run = Reraised e) \<longleftrightarrow> os_access sys s path W_OK) \<and>
         (os_access sys s path W_OK \<longrightarrow>
            run = ([Access path W_OK], Reraised (fst (snd exc_info)))) \<and>
         (\<not> os_access sys s path W_OK \<longrightarrow>
            (\<forall>s1. os_chmod sys s path S_IWUSR = Inr s1 \<longrightarrow>
               fst run = [Access path W_OK, Chmod path S_IWUSR, CallFunc path] \<and>
               retries (fst run) path = 1 \<and>
               snd run = (case func path s1 of Inl e \<Rightarrow> Propagated e | Inr s2 \<Rightarrow> Returned s2)) \<and>
            (\<forall>e. os_chmod sys s path S_IWUSR = Inl e \<longrightarrow>
               run = ([Access path W_OK, Chmod path S_IWUSR], Propagated e) \<and>
               retries (fst run) path = 0))"
  unfolding run_def onerror_def retries_def
  by (auto split: sum.splits)

theorem onerror_reraise_or_retry_witness:
  "os_access file_system [(''models/README.md'', 420)] ''models/README.md'' W_OK \<and>
   onerror file_system unlink ''models/README.md'' ((), PermissionError, ())
       [(''models/README.md'', 420)] =
     ([Access ''models/README.md'' W_OK], Reraised PermissionError) \<and>
   \<not> os_access file_system [(''models/.git/pack'', 292)] ''models/.git/pack'' W_OK \<and>
   os_chmod file_system [(''models/.git/pack'', 292)] ''models/.git/pack'' S_IWUSR =
     Inr [(''models/.git/pack'', 128)] \<and>
   retries (fst (onerror file_system unlink ''models/.git/pack'' ((), PermissionError, ())
       [(''models/.git/pack'', 292)])) ''models/.git/pack'' = 1 \<and>
   snd (onerror file_system unlink ''models/.git/pack'' ((), PermissionError, ())
       [(''models/.git/pack'', 292)]) = Returned [] \<and>
   os_chmod file_system [(''models/README.md'', 420)] ''models/LICENSE'' S_IWUSR =
     Inl FileNotFoundError \<and>
   retries (fst (onerror file_system unlink ''models/LICENSE'' ((), FileNotFoundError, ())
       [(''models/README.md'', 420)])) ''models/LICENSE'' = 0"
proof -
  have w: "os_access file_system [(''models/README.md'', 420)] ''models/README.md'' W_OK"
    by (simp add: file_system_def fs_access_def W_OK_def)
  have r: "\<not> os_access file_system [(''models/.git/pack'', 292)] ''models/.git/pack'' W_OK"
    by (simp add: file_system_def fs_access_def W_OK_def)
  have c: "os_chmod file_system [(''models/.git/pack'', 292)] ''models/.git/pack'' S_IWUSR =
      Inr [(''models/.git/pack'', 128)]"
    by (simp add: file_system_def fs_chmod_def S_IWUSR_def)
  have u: "unlink ''models/.git/pack'' [(''models/.git/pack'', 128)] = Inr []"
    by (simp add: unlink_def S_IWUSR_def)
  have m: "\<not> os_access file_system [(''models/README.md'', 420)] ''models/LICENSE'' W_OK"
    by (simp add: file_system_def fs_access_def W_OK_def)
  have f: "os_chmod file_system [(''models/README.md'', 420)] ''models/LICENSE'' S_IWUSR =
      Inl FileNotFoundError"
    by (simp add: file_system_def fs_chmod_def S_IWUSR_def)
  show ?thesis
    using w r c u m f
      onerror_reraise_or_retry[where sys = file_system and func = unlink
        and path = "''models/README.md''" and exc_info = "((), PermissionError, ())"
        and s = "[(''models/README.md'', 420)]"]
      onerror_reraise_or_retry[where sys = file_system and func = unlink
        and path = "''models/.git/pack''" and exc_info = "((), PermissionError, ())"
        and s = "[(''models/.git/pack'', 292)]"]
      onerror_reraise_or_retry[where sys = file_system and func = unlink
        and path = "''models/LICENSE''" and exc_info = "((), FileNotFoundError, ())"
        and s = "[(''models/README.md'', 420)]"]
    by (simp add: retries_def)
qed

text \<open>
  The claim C8 as it is written fails where \<open>os.chmod\<close> itself raises. When the
  directory \<^verbatim>\<open>models\<close> does not exist, \<open>shutil.rmtree\<close> calls the handler with
  \<open>os.lstat\<close> and the path \<^verbatim>\<open>models\<close>: the path is not writable, \<open>os.chmod\<close> raises
  \<open>FileNotFoundError\<close>, and \<open>func\<close> is not retried.
\<close>

theorem onerror_chmod_raises:
  "\<not> os_access file_system [] ''models'' W_OK \<and>
   onerror file_system lstat ''models'' ((), FileNotFoundError, ()) [] =
     ([Access ''models'' W_OK, Chmod ''models'' S_IWUSR], Propagated FileNotFoundError) \<and>
   retries (fst (onerror file_system lstat ''models'' ((), FileNotFoundError, ()) []))
     ''models'' = 0"
  by (simp add: onerror_def file_system_def fs_access_def fs_chmod_def retries_def
      W_OK_def S_IWUSR_def)



section \<open>Properties of the TensorNode callables\<close>

text \<open>
  C6, as amended. Of the seven TensorNodes the source files construct, six have an output
  built out of TensorFlow operations applied to the tensor inputs: \<open>node\<close> (\<open>sin_func\<close>),
  \<open>keras_node\<close>, \<open>incep_node\<close>, \<open>batch_norm\<close>, \<open>b\<close> (\<open>tensor_func\<close>) and \<open>exp_tf\<close>. The
  seventh, the node \<open>a\<close> of the from-tensorflow notebook, is not: \<open>TensorFunc.__call__\<close>
  returns its input tensor \<open>x\<close> as it is.
\<close>

theorem tensor_nodes_tf_built:
  "map (\<lambda>(n, c). (n, tf_built c (Tensor a) (Tensor b))) (tensor_nodes image_shape) =
     [(''node'', True), (''keras_node'', True), (''incep_node'', True),
      (''batch_norm'', True), (''b'', True), (''a'', False), (''exp_tf'', True)] \<and>
   fst (TensorFunc_call scope t x) = x"
  by (simp add: tensor_nodes_def tf_built_def sin_func_def KerasNode_call_def
      KerasNode_pre_build_def KerasNode_init_def InceptionNode_call_def
      InceptionNode_pre_build_def InceptionNode_init_def batch_norm_func_def
      tensor_func_def TensorFunc_call_def exp_func_def Let_def)

text \<open>
  The claim C6 as it is written fails on the node \<open>a\<close>: on the tensors \<open>t\<close> and \<open>x\<close> its
  callable returns \<open>x\<close>, which no TensorFlow operation produced.
\<close>

theorem TensorFunc_returns_input:
  "(case map_of (tensor_nodes [600, 800, 3]) ''a'' of
      None \<Rightarrow> False
    | Some c \<Rightarrow> node_output c (Tensor ''t'') (Tensor ''x'') = Inr (Tensor ''x'') \<and>
               \<not> tf_built c (Tensor ''t'') (Tensor ''x''))"
  by (simp add: tensor_nodes_def tf_built_def TensorFunc_call_def)

section \<open>Properties of the notebooks as scripts\<close>

subsection \<open>Names are bound before they are read\<close>

lemma tensorflow_models_names: "names_bound_first py_builtins tensorflow_models"
  by code_simp

lemma from_tensorflow_names: "names_bound_first py_builtins from_tensorflow"
  by code_simp

lemma spiking_mnist_names: "names_bound_first py_builtins spiking_mnist"
  by code_simp

lemma from_nengo_names: "names_bound_first py_builtins from_nengo"
  by code_simp

lemma tensorflow_models_runs: "returns (run_notebook py_builtins tensorflow_models)"
  by code_simp

lemma from_tensorflow_runs: "returns (run_notebook py_builtins from_tensorflow)"
  by code_simp

lemma spiking_mnist_runs: "returns (run_notebook py_builtins spiking_mnist)"
  by code_simp

lemma from_nengo_runs: "returns (run_notebook py_builtins from_nengo)"
  by code_simp

text \<open>
  C7. Each notebook is a linear script: every name a code cell reads is bound by that
  cell or by an earlier cell of the same notebook, import cells included, on top of the
  builtin namespace that Python binds before the first cell runs (of which the
  notebooks read \<open>enumerate\<close>, \<open>len\<close>, \<open>list\<close>, \<open>print\<close>, \<open>range\<close>, \<open>slice\<close>,
  \<open>sorted\<close>, \<open>str\<close> and \<open>type\<close>); so running the cells top to bottom, statement by
  statement, never reads a name that is not bound.
\<close>

theorem names_bound_before_use:
  "list_all (names_bound_first py_builtins) notebooks \<and>
   list_all (\<lambda>nb. returns (run_notebook py_builtins nb)) notebooks"
  using tensorflow_models_names from_tensorflow_names spiking_mnist_names from_nengo_names
    tensorflow_models_runs from_tensorflow_runs spiking_mnist_runs from_nengo_runs
  by (simp add: notebooks_def)

subsection \<open>Classes, functions and libraries\<close>

text \<open>
  C1, as amended. The notebooks define three classes of their own: \<open>KerasNode\<close> and
  \<open>InceptionNode\<close> in the tensorflow-models notebook and \<open>TensorFunc\<close> in the
  from-tensorflow notebook, none in the other two. None has a base class; \<open>KerasNode\<close>
  keeps the state \<open>self.model\<close> and \<open>InceptionNode\<close> the state \<open>self.input_shape\<close>. Each
  class is read by one statement, the assignment that constructs an instance of it as the
  callable of a \<open>nengo_dl.TensorNode\<close>. No other class is defined, so every other object
  the notebooks construct is an instance of a type owned by an external library or by
  Python.
\<close>

theorem classes_defined:
  "map (in_notebook class_defs) notebooks =
     [[(''KerasNode'', [], [''self.model'']),
       (''InceptionNode'', [], [''self.input_shape''])],
      [(''TensorFunc'', [], [])], [], []] \<and>
   in_notebook (reading ''KerasNode'') tensorflow_models =
     [Assign [''keras_node'']
        [''nengo_dl'', ''KerasNode'', ''model'', ''net_input_shape'', ''num_classes'']] \<and>
   in_notebook (reading ''InceptionNode'') tensorflow_models =
     [Assign [''incep_node''] [''nengo_dl'', ''InceptionNode'', ''np'', ''image_shape'']] \<and>
   in_notebook (reading ''TensorFunc'') from_tensorflow =
     [Assign [''a''] [''nengo_dl'', ''TensorFunc'']]"
proof -
  have c: "map (in_notebook class_defs) notebooks =
     [[(''KerasNode'', [], [''self.model'']),
       (''InceptionNode'', [], [''self.input_shape''])],
      [(''TensorFunc'', [], [])], [], []]"
    by code_simp
  have k: "in_notebook (reading ''KerasNode'') tensorflow_models =
     [Assign [''keras_node'']
        [''nengo_dl'', ''KerasNode'', ''model'', ''net_input_shape'', ''num_classes'']]"
    by code_simp
  have i: "in_notebook (reading ''InceptionNode'') tensorflow_models =
     [Assign [''incep_node''] [''nengo_dl'', ''InceptionNode'', ''np'', ''image_shape'']]"
    by code_simp
  have t: "in_notebook (reading ''TensorFunc'') from_tensorflow =
     [Assign [''a''] [''nengo_dl'', ''TensorFunc'']]"
    by code_simp
  show ?thesis using c k i t by blast
qed

text \<open>
  The claim C1 as it is written fails on the tensorflow-models notebook: it defines the
  classes \<open>KerasNode\<close> and \<open>InceptionNode\<close>, and \<open>KerasNode\<close> is a stateful structure,
  whose \<open>pre_build\<close> replaces the model that \<open>__init__\<close> stored.
\<close>

theorem notebooks_define_classes:
  "map fst (in_notebook class_defs tensorflow_models) = [''KerasNode'', ''InceptionNode''] \<and>
   model (KerasNode_init (Obj ''model'')) = Obj ''model'' \<and>
   model (KerasNode_pre_build (KerasNode_init (Obj ''model''))) =
     Call TensorFlow ''keras.models.clone_model'' [Obj ''model'']"
proof -
  have c: "map fst (in_notebook class_defs tensorflow_models) =
      [''KerasNode'', ''InceptionNode'']"
    by code_simp
  show ?thesis using c by (simp add: KerasNode_init_def KerasNode_pre_build_def)
qed

text \<open>
  C2, as amended. No engine, protocol or scheduler is implemented in the source files.
  What they define is: with \<open>def\<close>, outside classes, the functions \<open>sin_func\<close>,
  \<open>onerror\<close>, \<open>tensor_func\<close>, \<open>mse\<close>, \<open>objective\<close>, \<open>classification_error\<close>, \<open>plot\<close>
  and \<open>test_mse\<close>; the methods \<open>__init__\<close>, \<open>pre_build\<close>, \<open>__call__\<close> and \<open>post_build\<close>
  of \<open>KerasNode\<close> and \<open>pre_build\<close>, \<open>__call__\<close> and \<open>post_build\<close> of \<open>InceptionNode\<close> and
  of \<open>TensorFunc\<close>; and five lambda expressions, which read nothing but their
  parameters and the module \<open>np\<close> or \<open>tf\<close>. The cells call into \<open>nengo\<close>, \<open>tensorflow\<close>,
  \<open>nengo_dl\<close> and \<open>matplotlib\<close>, and also into \<open>numpy\<close>, \<open>PIL\<close>, the packages of the
  cloned tensorflow/models repository and Python's standard library, as imported below.
  Some cells do transform data themselves, with NumPy and Python's builtins: the
  spiking-mnist notebook writes the one-hot array, and the tensorflow-models notebook
  orders the class indices with \<open>sorted\<close> and \<open>enumerate\<close>, a reordering of the indices
  \<open>0..n-1\<close>.
\<close>

theorem libraries_and_functions:
  "map (in_notebook fun_defs) notebooks =
     [[''sin_func'', ''onerror''], [''tensor_func'', ''mse''],
      [''objective'', ''classification_error''], [''plot'', ''test_mse'']] \<and>
   map (in_notebook method_defs) notebooks =
     [[(''KerasNode'', [''__init__'', ''pre_build'', ''__call__'', ''post_build'']),
       (''InceptionNode'', [''pre_build'', ''__call__'', ''post_build''])],
      [(''TensorFunc'', [''pre_build'', ''__call__'', ''post_build''])], [], []] \<and>
   map (map (\<lambda>(c, ps, rs). (c, ps, free_names ps rs))) lambdas =
     [[(15, [''x''], [])],
      [(5, [''t''], [''np'']), (8, [''t'', ''x''], [''tf''])],
      [],
      [(18, [''t'', ''x''], [''np'']), (18, [''t'', ''x''], [''tf''])]] \<and>
   list_all2 lambdas_in_cells notebooks lambdas \<and>
   map (remdups \<circ> in_notebook imported) notebooks =
     [[''sys'', ''os'', ''urllib'', ''io'', ''shutil'', ''stat'', ''numpy'',
       ''matplotlib'', ''PIL'', ''tensorflow'', ''nengo'', ''nengo_dl'',
       ''datasets'', ''nets'', ''preprocessing''],
      [''gzip'', ''pickle'', ''urllib'', ''matplotlib'', ''nengo'', ''numpy'',
       ''tensorflow'', ''nengo_dl''],
      [''gzip'', ''pickle'', ''urllib'', ''zipfile'', ''nengo'', ''tensorflow'',
       ''numpy'', ''matplotlib'', ''nengo_dl''],
      [''matplotlib'', ''nengo'', ''numpy'', ''tensorflow'', ''nengo_dl'']] \<and>
   in_notebook (reading ''one_hot'') spiking_mnist =
     [Store ''one_hot'' ''one_hot[np.arange(data[0].shape[0]), data[1]]''
        [''one_hot'', ''np'', ''data''],
      Store ''data'' ''data[1]'' [''data'', ''one_hot'']] \<and>
   in_notebook (reading ''sorted'') tensorflow_models =
     [Assign [''sorted_inds''] [''sorted'', ''enumerate'', ''probabilities'']] \<and>
   mset (sorted_inds probabilities) = mset [0..<length probabilities]"
proof -
  have f: "map (in_notebook fun_defs) notebooks =
     [[''sin_func'', ''onerror''], [''tensor_func'', ''mse''],
      [''objective'', ''classification_error''], [''plot'', ''test_mse'']]"
    by code_simp
  have m: "map (in_notebook method_defs) notebooks =
     [[(''KerasNode'', [''__init__'', ''pre_build'', ''__call__'', ''post_build'']),
       (''InceptionNode'', [''pre_build'', ''__call__'', ''post_build''])],
      [(''TensorFunc'', [''pre_build'', ''__call__'', ''post_build''])], [], []]"
    by code_simp
  have l: "map (map (\<lambda>(c, ps, rs). (c, ps, free_names ps rs))) lambdas =
     [[(15, [''x''], [])],
      [(5, [''t''], [''np'']), (8, [''t'', ''x''], [''tf''])],
      [],
      [(18, [''t'', ''x''], [''np'']), (18, [''t'', ''x''], [''tf''])]]"
    by code_simp
  have c: "list_all2 lambdas_in_cells notebooks lambdas"
    by code_simp
  have i: "map (remdups \<circ> in_notebook imported) notebooks =
     [[''sys'', ''os'', ''urllib'', ''io'', ''shutil'', ''stat'', ''numpy'',
       ''matplotlib'', ''PIL'', ''tensorflow'', ''nengo'', ''nengo_dl'',
       ''datasets'', ''nets'', ''preprocessing''],
      [''gzip'', ''pickle'', ''urllib'', ''matplotlib'', ''nengo'', ''numpy'',
       ''tensorflow'', ''nengo_dl''],
      [''gzip'', ''pickle'', ''urllib'', ''zipfile'', ''nengo'', ''tensorflow'',
       ''numpy'', ''matplotlib'', ''nengo_dl''],
      [''matplotlib'', ''nengo'', ''numpy'', ''tensorflow'', ''nengo_dl'']]"
    by code_simp
  have o: "in_notebook (reading ''one_hot'') spiking_mnist =
     [Store ''one_hot'' ''one_hot[np.arange(data[0].shape[0]), data[1]]''
        [''one_hot'', ''np'', ''data''],
      Store ''data'' ''data[1]'' [''data'', ''one_hot'']]"
    by code_simp
  have s: "in_notebook (reading ''sorted'') tensorflow_models =
     [Assign [''sorted_inds''] [''sorted'', ''enumerate'', ''probabilities'']]"
    by code_simp
  show ?thesis using f m l c i o s sorted_inds_mset[of probabilities] by blast
qed

text \<open>
  The claim C2 as it is written fails on both counts: the spiking-mnist notebook calls
  into \<open>gzip\<close>, \<open>pickle\<close>, \<open>urllib\<close>, \<open>zipfile\<close> and \<open>numpy\<close>, and its cells and those of
  the tensorflow-models notebook compute new data from their inputs.
\<close>

theorem cells_transform_data:
  "remdups (in_notebook imported spiking_mnist) =
     [''gzip'', ''pickle'', ''urllib'', ''zipfile'', ''nengo'', ''tensorflow'', ''numpy'',
      ''matplotlib'', ''nengo_dl''] \<and>
   one_hot 2 [1, 0] =
     Inr [[0, 1, 0, 0, 0, 0, 0, 0, 0, 0], [1, 0, 0, 0, 0, 0, 0, 0, 0, 0]] \<and>
   sorted_inds [1/10, 7/10, 2/10] = [1, 2, 0]"
proof -
  have i: "remdups (in_notebook imported spiking_mnist) =
     [''gzip'', ''pickle'', ''urllib'', ''zipfile'', ''nengo'', ''tensorflow'', ''numpy'',
      ''matplotlib'', ''nengo_dl'']"
    by code_simp
  have o: "one_hot 2 [1, 0] =
     Inr [[0, 1, 0, 0, 0, 0, 0, 0, 0, 0], [1, 0, 0, 0, 0, 0, 0, 0, 0, 0]]"
    by code_simp
  have s: "sorted_inds [1/10, 7/10, 2/10] = [1, 2, 0]"
    by code_simp
  show ?thesis using i o s by blast
qed

subsection \<open>Inheritance and module-level state\<close>

text \<open>
  C5, as amended. No source file holds an inheritance hierarchy: every class defined in
  the notebooks declares no base class. Objects at the module level of the notebooks
  are changed after they were created, by the attribute and subscript assignments below:
  none in the tensorflow-models notebook, three in the from-tensorflow notebook, four in
  the spiking-mnist notebook and three in "Coming from Nengo to NengoDL".
\<close>

theorem no_base_class_but_stores:
  "map (\<lambda>(n, bs, attrs). (n, bs)) (concat (map (in_notebook class_defs) notebooks)) =
     [(''KerasNode'', []), (''InceptionNode'', []), (''TensorFunc'', [])] \<and>
   map (in_notebook module_stores) notebooks =
     [[],
      [(''ens'', ''ens.gain''), (''ens'', ''ens.bias''), (''conn'', ''conn.synapse'')],
      [(''one_hot'', ''one_hot[np.arange(data[0].shape[0]), data[1]]''),
       (''data'', ''data[1]''),
       (''net'', ''net.config[nengo.Ensemble].max_rates''),
       (''net'', ''net.config[nengo.Ensemble].intercepts'')],
      [(''conn'', ''conn.synapse''), (''outpt_p'', ''outpt_p.synapse''),
       (''net'', ''net.config[nengo.Ensemble].trainable'')]]"
proof -
  have c: "map (\<lambda>(n, bs, attrs). (n, bs))
      (concat (map (in_notebook class_defs) notebooks)) =
     [(''KerasNode'', []), (''InceptionNode'', []), (''TensorFunc'', [])]"
    by code_simp
  have m: "map (in_notebook module_stores) notebooks =
     [[],
      [(''ens'', ''ens.gain''), (''ens'', ''ens.bias''), (''conn'', ''conn.synapse'')],
      [(''one_hot'', ''one_hot[np.arange(data[0].shape[0]), data[1]]''),
       (''data'', ''data[1]''),
       (''net'', ''net.config[nengo.Ensemble].max_rates''),
       (''net'', ''net.config[nengo.Ensemble].intercepts'')],
      [(''conn'', ''conn.synapse''), (''outpt_p'', ''outpt_p.synapse''),
       (''net'', ''net.config[nengo.Ensemble].trainable'')]]"
    by code_simp
  show ?thesis using c m by blast
qed

text \<open>
  The claim C5 as it is written fails on module-level state: in "Coming from Nengo to
  NengoDL" the second code cell creates the probe \<open>outpt_p\<close>, and the tenth code cell
  assigns to its attribute \<open>synapse\<close>.
\<close>

theorem module_state_mutated:
  "''outpt_p'' \<in> set (concat (map binds (from_nengo ! 1))) \<and>
   concat (map module_stores (from_nengo ! 9)) =
     [(''conn'', ''conn.synapse''), (''outpt_p'', ''outpt_p.synapse'')]"
proof -
  have a: "''outpt_p'' \<in> set (concat (map binds (from_nengo ! 1)))"
    by code_simp
  have b: "concat (map module_stores (from_nengo ! 9)) =
     [(''conn'', ''conn.synapse''), (''outpt_p'', ''outpt_p.synapse'')]"
    by code_simp
  show ?thesis using a b by blast
qed


end
